theory Spec2Isabelle
  imports Main "HOL-Library.Word" "HOL-Library.Signed_Division" "HOL-Library.Multiset"
begin

unbundle bit_operations_syntax

section \<open>Values shared by all components\<close>

type_synonym byte = "8 word"

text \<open>
  Go reports failures as \<open>error\<close> values.  Every error the modelled code creates itself has
  a constructor of its own; \<open>Transport\<close> stands for an error handed up by the serial
  transport or by a bus primitive, and \<open>Panic\<close> for a run-time panic (nil dereference,
  index out of range, integer division by zero).
\<close>

datatype error =
    Transport nat
  | WrongRomCodeLength
  | ParseSyntax
  | ParseRange
  | CrcError
  | ScratchpadCrcError
  | SearchWrongBits
  | CannotReadRom
  | DeviceNotFound
  | WriteResetPulseFailed
  | ReadResetPulseFailed
  | ResetPulseError byte
  | NoDevicePresent
  | PresenceError byte
  | ResetBitsExpected nat
  | Panic

section \<open>CRC8 (src/unnamed/part_001)\<close>

text \<open>The inner loop of \<open>crc8\<close>: eight shift steps over one data byte.\<close>

primrec crc8_bits :: "nat \<Rightarrow> byte \<Rightarrow> byte \<Rightarrow> byte" where
  "crc8_bits 0 crc b = crc"
| "crc8_bits (Suc i) crc b =
     (let mix = (crc XOR b) AND 0x01;
          crc1 = drop_bit 1 crc;
          crc2 = (if mix > 0 then crc1 XOR 0x8c else crc1)
      in crc8_bits i crc2 (drop_bit 1 b))"

definition crc8 :: "byte list \<Rightarrow> byte" where
  "crc8 data = foldl (crc8_bits 8) 0x00 data"

section \<open>ROM codes (src/rom.go)\<close>

datatype ROM = ROM (Code: "byte list")

text \<open>\<open>new(ROM)\<close>: the array \<open>[8]byte\<close> starts as eight zero bytes.\<close>

definition new_ROM :: ROM where
  "new_ROM = ROM (replicate 8 0x00)"

text \<open>\<open>copy(r.Code[0:8], code)\<close> copies \<open>min 8 (len code)\<close> bytes.\<close>

definition NewROMFromBytes :: "byte list \<Rightarrow> ROM" where
  "NewROMFromBytes code = ROM (take 8 code @ drop (length code) (replicate 8 0x00))"

text \<open>
  \<open>strconv.ParseInt(s, 16, 16)\<close> of the Go standard library: an optional sign, then at least
  one hexadecimal digit and nothing else; the magnitude must fit a signed 16-bit integer.
\<close>

definition hex_digit :: "char \<Rightarrow> nat option" where
  "hex_digit c =
     (let n = of_char c :: nat in
      if 48 \<le> n \<and> n \<le> 57 then Some (n - 48)
      else if 97 \<le> n \<and> n \<le> 102 then Some (n - 87)
      else if 65 \<le> n \<and> n \<le> 70 then Some (n - 55)
      else None)"

fun hex_digits :: "nat \<Rightarrow> string \<Rightarrow> nat option" where
  "hex_digits acc [] = Some acc"
| "hex_digits acc (c # cs) =
     (case hex_digit c of None \<Rightarrow> None | Some d \<Rightarrow> hex_digits (acc * 16 + d) cs)"

definition ParseInt_16_16 :: "string \<Rightarrow> error + int" where
  "ParseInt_16_16 s =
     (if s = [] then Inl ParseSyntax
      else
        let neg = (hd s = CHR ''-'');
            digits = (if hd s = CHR ''+'' \<or> hd s = CHR ''-'' then tl s else s)
        in if digits = [] then Inl ParseSyntax
           else case hex_digits 0 digits of
                  None \<Rightarrow> Inl ParseSyntax
                | Some un \<Rightarrow>
                    if \<not> neg \<and> un \<ge> 32768 then Inl ParseRange
                    else if neg \<and> un > 32768 then Inl ParseRange
                    else Inr (if neg then - int un else int un))"

text \<open>The loop of \<open>NewROMFromString\<close> over \<open>i = 0 .. 7\<close>, given as the number of bytes left.\<close>

fun parse_rom_bytes :: "nat \<Rightarrow> string \<Rightarrow> byte list \<Rightarrow> error + byte list" where
  "parse_rom_bytes 0 code acc = Inr acc"
| "parse_rom_bytes (Suc k) code acc =
     (case ParseInt_16_16 (take 2 code) of
        Inl err \<Rightarrow> Inl err
      | Inr b \<Rightarrow> parse_rom_bytes k (drop 2 code) (acc @ [word_of_int b]))"

definition NewROMFromString :: "string \<Rightarrow> error + ROM" where
  "NewROMFromString code =
     (if length code \<noteq> 16 then Inl WrongRomCodeLength
      else case parse_rom_bytes 8 code [] of
             Inl err \<Rightarrow> Inl err
           | Inr bs \<Rightarrow> Inr (ROM bs))"

definition IsValid :: "ROM \<Rightarrow> bool" where
  "IsValid r = (crc8 (take 7 (Code r)) = Code r ! 7)"

text \<open>
  \<open>newRomFromBits\<close>: the index \<open>n\<close> runs along the bit slice; bits from index 64 on are
  ignored, a bit greater than zero sets bit \<open>n % 8\<close> of byte \<open>n / 8\<close>.
\<close>

fun rom_bits_loop :: "nat \<Rightarrow> byte list \<Rightarrow> byte list \<Rightarrow> byte list" where
  "rom_bits_loop n [] code = code"
| "rom_bits_loop n (b # bits) code =
     (if n \<ge> 64 then code
      else rom_bits_loop (Suc n) bits
             (if b > 0b0
              then code[n div 8 := (code ! (n div 8)) OR push_bit (n mod 8) 0x01]
              else code))"

definition newRomFromBits :: "byte list \<Rightarrow> ROM" where
  "newRomFromBits bits = ROM (rom_bits_loop 0 bits (replicate 8 0x00))"

primrec byte_bits :: "nat \<Rightarrow> byte \<Rightarrow> byte list" where
  "byte_bits 0 b = []"
| "byte_bits (Suc m) b = (b mod 2) # byte_bits m (drop_bit 1 b)"

definition toBits :: "ROM \<Rightarrow> byte list" where
  "toBits r = concat (map (byte_bits 8) (Code r))"

section \<open>The bus as seen by the device layer\<close>

text \<open>
  \<open>AddressableDevice\<close> and \<open>TemperatureSensor\<close> reach the line only through the methods
  of \<open>*UARTAdapter\<close> (\<open>Reset\<close>, \<open>ReadBit\<close>, \<open>WriteBit\<close>, \<open>ReadByte\<close>, \<open>WriteByte\<close>) and
  through the clock (\<open>time.Now\<close>, \<open>time.Sleep\<close>).  The state of the adapter, the line and
  the clock is a value of type \<open>'b\<close>; every primitive returns its result with the new
  state.  A primitive that fails returns the zero value with its error, as the Go methods
  do.  Durations and clock readings are nanoseconds (\<open>time.Duration\<close>).
\<close>

record 'b bus_ops =
  b_Reset :: "'b \<Rightarrow> error option \<times> 'b"
  b_ReadBit :: "'b \<Rightarrow> (error + byte) \<times> 'b"
  b_WriteBit :: "byte \<Rightarrow> 'b \<Rightarrow> error option \<times> 'b"
  b_ReadByte :: "'b \<Rightarrow> (error + byte) \<times> 'b"
  b_WriteByte :: "byte \<Rightarrow> 'b \<Rightarrow> error option \<times> 'b"
  b_now :: "'b \<Rightarrow> int"
  b_sleep :: "int \<Rightarrow> 'b \<Rightarrow> 'b"

subsection \<open>Multi-byte transfers (src/bus.go, src/bus-driver.go)\<close>

text \<open>
  The loop shared by \<open>ReadBytes\<close> and \<open>readBytes\<close>: \<open>buffer[i], err = ReadByte()\<close> stores
  the returned byte (zero on failure) before the error is looked at.  The result is the
  value of \<open>i\<close> with the error, if any, the buffer and the bus.
\<close>

function read_bytes_loop ::
  "'b bus_ops \<Rightarrow> nat \<Rightarrow> byte list \<Rightarrow> 'b \<Rightarrow> (nat \<times> error option) \<times> byte list \<times> 'b" where
  "read_bytes_loop ops i buffer bus =
     (if i < length buffer then
        (case b_ReadByte ops bus of
           (Inl err, bus1) \<Rightarrow> ((i, Some err), buffer[i := 0], bus1)
         | (Inr v, bus1) \<Rightarrow> read_bytes_loop ops (i + 1) (buffer[i := v]) bus1)
      else ((i, None), buffer, bus))"
  by pat_completeness auto
termination
  by (relation "measure (\<lambda>(ops, i, buffer, bus). length buffer - i)") auto

text \<open>\<open>ReadBytes\<close> of src/bus.go: after the loop, \<open>i += 1\<close>, then \<open>return i, nil\<close>.\<close>

definition ReadBytes ::
  "'b bus_ops \<Rightarrow> byte list \<Rightarrow> 'b \<Rightarrow> (nat \<times> error option) \<times> byte list \<times> 'b" where
  "ReadBytes ops buffer bus =
     (case read_bytes_loop ops 0 buffer bus of
        ((i, Some err), buffer1, bus1) \<Rightarrow> ((i, Some err), buffer1, bus1)
      | ((i, None), buffer1, bus1) \<Rightarrow> ((i + 1, None), buffer1, bus1))"

text \<open>\<open>readBytes\<close> of src/bus-driver.go: after the loop, \<open>return i, nil\<close>.\<close>

definition readBytes ::
  "'b bus_ops \<Rightarrow> byte list \<Rightarrow> 'b \<Rightarrow> (nat \<times> error option) \<times> byte list \<times> 'b" where
  "readBytes ops buffer bus =
     (case read_bytes_loop ops 0 buffer bus of
        ((i, Some err), buffer1, bus1) \<Rightarrow> ((i, Some err), buffer1, bus1)
      | ((i, None), buffer1, bus1) \<Rightarrow> ((i, None), buffer1, bus1))"

fun write_bytes_loop ::
  "'b bus_ops \<Rightarrow> nat \<Rightarrow> byte list \<Rightarrow> 'b \<Rightarrow> (nat \<times> error option) \<times> 'b" where
  "write_bytes_loop ops i [] bus = ((i, None), bus)"
| "write_bytes_loop ops i (b # rest) bus =
     (case b_WriteByte ops b bus of
        (Some err, bus1) \<Rightarrow> ((i, Some err), bus1)
      | (None, bus1) \<Rightarrow> write_bytes_loop ops (i + 1) rest bus1)"

definition WriteBytes :: "'b bus_ops \<Rightarrow> byte list \<Rightarrow> 'b \<Rightarrow> (nat \<times> error option) \<times> 'b" where
  "WriteBytes ops buffer bus = write_bytes_loop ops 0 buffer bus"

section \<open>ROM addressing and discovery (src/onewire-device.go)\<close>

text \<open>
  The same function bodies appear in src/bus-driver.go as methods of the adapter
  (\<open>readROM\<close>, \<open>matchROM\<close>, \<open>skipROM\<close>, \<open>searchROM\<close>, \<open>isConnected\<close>), with the primitives
  spelled in lower case.
\<close>

definition readROM :: "'b bus_ops \<Rightarrow> 'b \<Rightarrow> (error + ROM) \<times> 'b" where
  "readROM ops bus =
     (case b_Reset ops bus of
        (Some err, bus1) \<Rightarrow> (Inl err, bus1)
      | (None, bus1) \<Rightarrow>
     (case b_WriteByte ops 0x33 bus1 of
        (Some err, bus2) \<Rightarrow> (Inl err, bus2)
      | (None, bus2) \<Rightarrow>
     (case ReadBytes ops (Code new_ROM) bus2 of
        ((n, Some err), code, bus3) \<Rightarrow> (Inl err, bus3)
      | ((n, None), code, bus3) \<Rightarrow>
          if \<not> IsValid (ROM code) then (Inl CrcError, bus3)
          else (Inr (ROM code), bus3))))"

text \<open>A nil \<open>rom\<close> panics when \<open>rom.Code\<close> is read, after the reset and the command byte.\<close>

definition matchROM :: "'b bus_ops \<Rightarrow> ROM option \<Rightarrow> 'b \<Rightarrow> error option \<times> 'b" where
  "matchROM ops rom bus =
     (case b_Reset ops bus of
        (Some err, bus1) \<Rightarrow> (Some err, bus1)
      | (None, bus1) \<Rightarrow>
     (case b_WriteByte ops 0x55 bus1 of
        (Some err, bus2) \<Rightarrow> (Some err, bus2)
      | (None, bus2) \<Rightarrow>
     (case rom of
        None \<Rightarrow> (Some Panic, bus2)
      | Some r \<Rightarrow>
     (case WriteBytes ops (take 8 (Code r)) bus2 of
        ((n, Some err), bus3) \<Rightarrow> (Some err, bus3)
      | ((n, None), bus3) \<Rightarrow> (None, bus3)))))"

definition skipROM :: "'b bus_ops \<Rightarrow> 'b \<Rightarrow> error option \<times> 'b" where
  "skipROM ops bus =
     (case b_Reset ops bus of
        (Some err, bus1) \<Rightarrow> (Some err, bus1)
      | (None, bus1) \<Rightarrow>
     (case b_WriteByte ops 0xcc bus1 of
        (Some err, bus2) \<Rightarrow> (Some err, bus2)
      | (None, bus2) \<Rightarrow> (None, bus2)))"

subsection \<open>Search ROM and Alarm Search\<close>

text \<open>The loop "send known bits" of one round.\<close>

fun send_known_bits :: "'b bus_ops \<Rightarrow> byte list \<Rightarrow> 'b \<Rightarrow> error option \<times> 'b" where
  "send_known_bits ops [] bus = (None, bus)"
| "send_known_bits ops (b # rest) bus =
     (case b_ReadBit ops bus of
        (Inl err, bus1) \<Rightarrow> (Some err, bus1)
      | (Inr skipped, bus1) \<Rightarrow>
     (case b_ReadBit ops bus1 of
        (Inl err, bus2) \<Rightarrow> (Some err, bus2)
      | (Inr skipped_complement, bus2) \<Rightarrow>
     (case b_WriteBit ops b bus2 of
        (Some err, bus3) \<Rightarrow> (Some err, bus3)
      | (None, bus3) \<Rightarrow> send_known_bits ops rest bus3)))"

text \<open>
  The loop "read rest of the bits" of one round.  It ends with \<open>Inr (current, partials)\<close>
  when \<open>len(current)\<close> has reached 64 and also at the \<open>break\<close> of an alarm search; the
  fatal pattern outside an alarm search and every failed primitive end it with \<open>Inl\<close>.
\<close>

function read_rest_bits ::
  "'b bus_ops \<Rightarrow> bool \<Rightarrow> byte list \<Rightarrow> byte list list \<Rightarrow> 'b
     \<Rightarrow> (error + byte list \<times> byte list list) \<times> 'b" where
  "read_rest_bits ops WithAlarm current partials bus =
     (if length current < 64 then
        (case b_ReadBit ops bus of
           (Inl err, bus1) \<Rightarrow> (Inl err, bus1)
         | (Inr b1, bus1) \<Rightarrow>
        (case b_ReadBit ops bus1 of
           (Inl err, bus2) \<Rightarrow> (Inl err, bus2)
         | (Inr b2, bus2) \<Rightarrow>
             if b1 \<noteq> b2 then
               (case b_WriteBit ops b1 bus2 of
                  (Some err, bus3) \<Rightarrow> (Inl err, bus3)
                | (None, bus3) \<Rightarrow>
                    read_rest_bits ops WithAlarm (current @ [b1]) partials bus3)
             else if b1 = b2 \<and> b1 = 0b0 then
               (let r = current @ [0b1] in
                case b_WriteBit ops 0b0 bus2 of
                  (Some err, bus3) \<Rightarrow> (Inl err, bus3)
                | (None, bus3) \<Rightarrow>
                    read_rest_bits ops WithAlarm (current @ [0b0]) (partials @ [r]) bus3)
             else if WithAlarm then (Inr (current, partials), bus2)
             else (Inl SearchWrongBits, bus2)))
      else (Inr (current, partials), bus))"
  by pat_completeness auto
termination
  by (relation "measure (\<lambda>(ops, WithAlarm, current, partials, bus). 64 - length current)") auto

text \<open>
  The outer \<open>for\<close> of \<open>searchROM\<close>, one round per call.  Nothing in the code bounds the
  number of rounds, so the loop is a partial function: \<open>None\<close> stands for a search that
  never returns.
\<close>

partial_function (option) search_rounds ::
  "'b bus_ops \<Rightarrow> bool \<Rightarrow> byte \<Rightarrow> ROM list \<Rightarrow> byte list list \<Rightarrow> byte list \<Rightarrow> 'b
     \<Rightarrow> ((error + ROM list) \<times> 'b) option" where
  "search_rounds ops WithAlarm command complete partials current bus =
     (case b_Reset ops bus of
        (Some err, bus1) \<Rightarrow> Some (Inl err, bus1)
      | (None, bus1) \<Rightarrow>
     (case b_WriteByte ops command bus1 of
        (Some err, bus2) \<Rightarrow> Some (Inl err, bus2)
      | (None, bus2) \<Rightarrow>
     (case send_known_bits ops current bus2 of
        (Some err, bus3) \<Rightarrow> Some (Inl err, bus3)
      | (None, bus3) \<Rightarrow>
     (case read_rest_bits ops WithAlarm current partials bus3 of
        (Inl err, bus4) \<Rightarrow> Some (Inl err, bus4)
      | (Inr (current1, partials1), bus4) \<Rightarrow>
          (let complete1 = complete @ [newRomFromBits current1] in
           if length partials1 = 0 then Some (Inr complete1, bus4)
           else search_rounds ops WithAlarm command complete1
                  (tl partials1) (hd partials1) bus4)))))"

declare search_rounds.simps [code]

definition searchROM :: "'b bus_ops \<Rightarrow> bool \<Rightarrow> 'b \<Rightarrow> ((error + ROM list) \<times> 'b) option" where
  "searchROM ops WithAlarm bus =
     (let command = (if WithAlarm then 0xec else 0xf0)
      in search_rounds ops WithAlarm command [] [] [] bus)"

text \<open>
  \<open>isConnected\<close> drops the errors of both bit reads (\<open>b1, _ := d.bus.ReadBit()\<close>); a failed
  read leaves the zero bit.
\<close>

fun is_connected_loop :: "'b bus_ops \<Rightarrow> byte list \<Rightarrow> 'b \<Rightarrow> (error + bool) \<times> 'b" where
  "is_connected_loop ops [] bus = (Inr True, bus)"
| "is_connected_loop ops (b # rest) bus =
     (let (r1, bus1) = b_ReadBit ops bus;
          b1 = (case r1 of Inl err \<Rightarrow> 0 | Inr v \<Rightarrow> v);
          (r2, bus2) = b_ReadBit ops bus1;
          b2 = (case r2 of Inl err \<Rightarrow> 0 | Inr v \<Rightarrow> v)
      in if b1 = b2 \<and> b1 = 0b1 then (Inr False, bus2)
         else case b_WriteBit ops b bus2 of
                (Some err, bus3) \<Rightarrow> (Inl err, bus3)
              | (None, bus3) \<Rightarrow> is_connected_loop ops rest bus3)"

definition isConnected :: "'b bus_ops \<Rightarrow> ROM \<Rightarrow> 'b \<Rightarrow> (error + bool) \<times> 'b" where
  "isConnected ops rom bus =
     (case b_Reset ops bus of
        (Some err, bus1) \<Rightarrow> (Inl err, bus1)
      | (None, bus1) \<Rightarrow>
     (case b_WriteByte ops 0xf0 bus1 of
        (Some err, bus2) \<Rightarrow> (Inl err, bus2)
      | (None, bus2) \<Rightarrow> is_connected_loop ops (toBits rom) bus2))"

section \<open>Temperature sensors (src/onewire-temperature-sensor.go)\<close>

definition BSResolution9bits :: byte where
  "BSResolution9bits = 0x0"

definition BS18S20ResolutionExtended :: byte where
  "BS18S20ResolutionExtended = 0x1"

text \<open>
  The sensor without its embedded \<open>AddressableDevice\<close>: the bus is passed along.
  \<open>rom\<close> is a pointer and may be nil; \<open>tConv\<close> and \<open>tRW\<close> are durations in nanoseconds.
\<close>

record TemperatureSensor =
  rom :: "ROM option"
  familyCode :: byte
  singleMode :: bool
  parasiticMode :: bool
  resolution :: byte
  description :: string
  precision :: string
  tConv :: int
  tRW :: int

definition Millisecond :: int where
  "Millisecond = 1000000"

text \<open>\<open>fmt.Sprintf("%d", n)\<close> for a byte \<open>n\<close>: its decimal digits.\<close>

fun decimal :: "nat \<Rightarrow> string" where
  "decimal n =
     (if n < 10 then [char_of (48 + n)]
      else decimal (n div 10) @ [char_of (48 + n mod 10)])"

declare decimal.simps [simp del]

definition TemperatureSensor_reset ::
  "TemperatureSensor \<Rightarrow> 'b bus_ops \<Rightarrow> 'b \<Rightarrow> error option \<times> 'b" where
  "TemperatureSensor_reset s ops bus =
     (if singleMode s then skipROM ops bus else matchROM ops (rom s) bus)"

definition inParasiticMode ::
  "TemperatureSensor \<Rightarrow> 'b bus_ops \<Rightarrow> 'b \<Rightarrow> (error + bool) \<times> 'b" where
  "inParasiticMode s ops bus =
     (case TemperatureSensor_reset s ops bus of
        (Some err, bus1) \<Rightarrow> (Inl err, bus1)
      | (None, bus1) \<Rightarrow>
     (case b_WriteByte ops 0xb4 bus1 of
        (Some err, bus2) \<Rightarrow> (Inl err, bus2)
      | (None, bus2) \<Rightarrow>
     (case b_ReadBit ops bus2 of
        (Inl err, bus3) \<Rightarrow> (Inl err, bus3)
      | (Inr pm, bus3) \<Rightarrow> (Inr (pm = 0b0), bus3))))"

definition readScratchpad ::
  "TemperatureSensor \<Rightarrow> 'b bus_ops \<Rightarrow> 'b \<Rightarrow> (error + byte list) \<times> 'b" where
  "readScratchpad s ops bus =
     (case TemperatureSensor_reset s ops bus of
        (Some err, bus1) \<Rightarrow> (Inl err, bus1)
      | (None, bus1) \<Rightarrow>
     (case b_WriteByte ops 0xbe bus1 of
        (Some err, bus2) \<Rightarrow> (Inl err, bus2)
      | (None, bus2) \<Rightarrow>
     (case ReadBytes ops (replicate 9 0x00) bus2 of
        ((n, Some err), data, bus3) \<Rightarrow> (Inl err, bus3)
      | ((n, None), data, bus3) \<Rightarrow>
          (let scratchpad = take 8 data;
               crc = data ! 8
           in if crc8 scratchpad \<noteq> crc then (Inl ScratchpadCrcError, bus3)
              else (Inr scratchpad, bus3)))))"

definition writeScratchpad ::
  "TemperatureSensor \<Rightarrow> 'b bus_ops \<Rightarrow> byte list \<Rightarrow> 'b \<Rightarrow> error option \<times> 'b" where
  "writeScratchpad s ops data bus =
     (case TemperatureSensor_reset s ops bus of
        (Some err, bus1) \<Rightarrow> (Some err, bus1)
      | (None, bus1) \<Rightarrow>
     (case b_WriteByte ops 0x4e bus1 of
        (Some err, bus2) \<Rightarrow> (Some err, bus2)
      | (None, bus2) \<Rightarrow>
     (case WriteBytes ops data bus2 of
        ((n, Some err), bus3) \<Rightarrow> (Some err, bus3)
      | ((n, None), bus3) \<Rightarrow> (None, bus3))))"

text \<open>
  The constructor, block by block.  First the sensor is located: without a ROM it enters
  single mode and tries Read ROM, with a ROM it checks that the device answers a search.
\<close>

definition locate_sensor ::
  "'b bus_ops \<Rightarrow> TemperatureSensor \<Rightarrow> bool \<Rightarrow> 'b \<Rightarrow> (error + TemperatureSensor) \<times> 'b" where
  "locate_sensor ops s required bus =
     (case rom s of
        None \<Rightarrow>
          (let s1 = s\<lparr>singleMode := True\<rparr> in
           case readROM ops bus of
             (Inl err, bus1) \<Rightarrow>
               if required then (Inl CannotReadRom, bus1) else (Inr s1, bus1)
           | (Inr r, bus1) \<Rightarrow> (Inr (s1\<lparr>rom := Some r\<rparr>), bus1))
      | Some r \<Rightarrow>
          (let s1 = s\<lparr>singleMode := False\<rparr> in
           case isConnected ops r bus of
             (Inl err, bus1) \<Rightarrow> (Inl err, bus1)
           | (Inr online, bus1) \<Rightarrow>
               if required \<and> \<not> online then (Inl DeviceNotFound, bus1)
               else (Inr s1, bus1)))"

text \<open>The first \<open>switch s.familyCode\<close>: the description.\<close>

definition describe_family :: "TemperatureSensor \<Rightarrow> TemperatureSensor" where
  "describe_family s =
     (if familyCode s = 0x00 then s\<lparr>description := ''Unidentified device''\<rparr>
      else if familyCode s = 0x10
        then s\<lparr>description := ''DS18S20 - High-precision Digital Thermometer''\<rparr>
      else if familyCode s = 0x22
        then s\<lparr>description := ''DS1822 - Econo Digital Thermometer''\<rparr>
      else if familyCode s = 0x28
        then s\<lparr>description := ''DS18B20 - Programmable Resolution Digital Thermometer''\<rparr>
      else s)"

text \<open>
  The second \<open>switch s.familyCode\<close>: resolution, conversion time and precision.  In the
  expression \<open>time.Millisecond * (750 / (8 >> s.resolution))\<close> all operands are durations
  (64-bit integers) and the resolution has just been masked to two bits, so the divisor
  is one of 8, 4, 2 and 1.
\<close>

definition setup_resolution ::
  "'b bus_ops \<Rightarrow> TemperatureSensor \<Rightarrow> 'b \<Rightarrow> (error + TemperatureSensor) \<times> 'b" where
  "setup_resolution ops s bus =
     (if familyCode s = 0x10 then
        (if resolution s = BSResolution9bits then (Inr (s\<lparr>precision := ''9 bits''\<rparr>), bus)
         else (Inr (s\<lparr>precision := ''extended''\<rparr>), bus))
      else if familyCode s = 0x22 \<or> familyCode s = 0x28 then
        (case readScratchpad s ops bus of
           (Inl err, bus1) \<Rightarrow> (Inl err, bus1)
         | (Inr sp, bus1) \<Rightarrow>
             (let s1 = s\<lparr>resolution := (drop_bit 5 (sp ! 4)) AND 0b11\<rparr>;
                  s2 = s1\<lparr>tConv :=
                          Millisecond * (750 div (drop_bit (unat (resolution s1)) 8))\<rparr>;
                  s3 = s2\<lparr>precision := decimal (unat (9 + resolution s2)) @ '' bits''\<rparr>
              in (Inr s3, bus1)))
      else (Inr (s\<lparr>precision := ''unknown''\<rparr>), bus))"

text \<open>
  \<open>NewTemperatureSensor\<close>.  When no ROM was given, reading it failed and the sensor is not
  required, \<open>s.rom\<close> is still nil at \<open>s.rom.Code[0]\<close>, which panics.
\<close>

definition NewTemperatureSensor ::
  "'b bus_ops \<Rightarrow> ROM option \<Rightarrow> bool \<Rightarrow> 'b \<Rightarrow> (error + TemperatureSensor) \<times> 'b" where
  "NewTemperatureSensor ops rom_arg required bus =
     (let s0 = \<lparr> rom = rom_arg, familyCode = 0, singleMode = False, parasiticMode = False,
                resolution = BSResolution9bits, description = [], precision = [],
                tConv = 750 * Millisecond, tRW = 10 * Millisecond \<rparr>
      in case locate_sensor ops s0 required bus of
           (Inl err, bus1) \<Rightarrow> (Inl err, bus1)
         | (Inr s1, bus1) \<Rightarrow>
      (case inParasiticMode s1 ops bus1 of
         (Inl err, bus2) \<Rightarrow> (Inl err, bus2)
       | (Inr pm, bus2) \<Rightarrow>
      (let s2 = s1\<lparr>parasiticMode := pm\<rparr> in
       case rom s2 of
         None \<Rightarrow> (Inl Panic, bus2)
       | Some r \<Rightarrow>
           (let s3 = s2\<lparr>familyCode := Code r ! 0\<rparr>
            in setup_resolution ops (describe_family s3) bus2))))"

text \<open>
  \<open>SetResolution\<close> returns the error, the sensor as the call leaves it and the bus.  The
  scratchpad returned by \<open>readScratchpad\<close> has eight bytes, so \<open>scratchpad[2]\<close> and
  \<open>scratchpad[3]\<close> exist.
\<close>

definition SetResolution ::
  "TemperatureSensor \<Rightarrow> 'b bus_ops \<Rightarrow> byte \<Rightarrow> 'b \<Rightarrow> error option \<times> TemperatureSensor \<times> 'b"
  where
  "SetResolution s ops resolution_arg bus =
     (if familyCode s = 0x10 then
        (if resolution_arg = BSResolution9bits
         then (None, s\<lparr>resolution := BSResolution9bits, precision := ''9 bits''\<rparr>, bus)
         else (None, s\<lparr>resolution := BS18S20ResolutionExtended, precision := ''extended''\<rparr>,
               bus))
      else if familyCode s = 0x22 \<or> familyCode s = 0x28 then
        (case readScratchpad s ops bus of
           (Inl err, bus1) \<Rightarrow> (Some err, s, bus1)
         | (Inr scratchpad, bus1) \<Rightarrow>
             (let s1 = s\<lparr>resolution := resolution_arg AND 0b11\<rparr>;
                  data = [scratchpad ! 2, scratchpad ! 3,
                          (push_bit 5 (resolution s1)) OR 0b00011111]
              in case writeScratchpad s1 ops data bus1 of
                   (Some err, bus2) \<Rightarrow> (Some err, s1, bus2)
                 | (None, bus2) \<Rightarrow>
                     (let s2 = s1\<lparr>tConv :=
                                  Millisecond * (750 div (drop_bit (unat (resolution s1)) 8))\<rparr>;
                          s3 = s2\<lparr>precision := decimal (unat (9 + resolution s2)) @ '' bits''\<rparr>
                      in (None, s3, bus2))))
      else (None, s, bus))"

subsection \<open>Waiting for the device\<close>

text \<open>
  The polling loop of \<open>wait\<close>.  It has no bound of its own (a clock that stands still and
  a line that stays low keep it running), so it is a partial function.
  \<open>time.Since(startedAt)\<close> is the clock reading minus \<open>startedAt\<close>.
\<close>

partial_function (option) wait_loop ::
  "'b bus_ops \<Rightarrow> int \<Rightarrow> int \<Rightarrow> 'b \<Rightarrow> (error option \<times> 'b) option" where
  "wait_loop ops startedAt duration bus =
     (case b_ReadBit ops bus of
        (Inl err, bus1) \<Rightarrow> Some (Some err, bus1)
      | (Inr b, bus1) \<Rightarrow>
          if b \<noteq> 0b0 then Some (None, bus1)
          else if b_now ops bus1 - startedAt > duration then Some (None, bus1)
          else wait_loop ops startedAt duration bus1)"

declare wait_loop.simps [code]

definition wait ::
  "TemperatureSensor \<Rightarrow> 'b bus_ops \<Rightarrow> int \<Rightarrow> 'b \<Rightarrow> (error option \<times> 'b) option" where
  "wait s ops duration bus =
     (if parasiticMode s then Some (None, b_sleep ops duration bus)
      else wait_loop ops (b_now ops bus) duration bus)"

definition convertT ::
  "TemperatureSensor \<Rightarrow> 'b bus_ops \<Rightarrow> 'b \<Rightarrow> (error option \<times> 'b) option" where
  "convertT s ops bus =
     (case TemperatureSensor_reset s ops bus of
        (Some err, bus1) \<Rightarrow> Some (Some err, bus1)
      | (None, bus1) \<Rightarrow>
     (case b_WriteByte ops 0x44 bus1 of
        (Some err, bus2) \<Rightarrow> Some (Some err, bus2)
      | (None, bus2) \<Rightarrow> wait s ops (tConv s) bus2))"

subsection \<open>Decoding\<close>

text \<open>
  \<open>binary.Read\<close> into an \<open>int16\<close> needs two bytes; with fewer it fails, the error is
  dropped and \<open>t\<close> keeps its zero value.
\<close>

definition read_int16_le :: "byte list \<Rightarrow> 16 word" where
  "read_int16_le scratchpad =
     (if length scratchpad < 2 then 0
      else (ucast (scratchpad ! 0)) OR push_bit 8 (ucast (scratchpad ! 1)))"

text \<open>
  \<open>calcTemperature\<close> computes in Go's \<open>int\<close> (64 bits; the values stay far below its range)
  with division truncating towards zero.  It panics on a scratchpad shorter than eight
  bytes and on a zero \<open>countPerC\<close> in the extended DS18S20 branch.
\<close>

definition calcTemperature :: "TemperatureSensor \<Rightarrow> byte list \<Rightarrow> error + int" where
  "calcTemperature s scratchpad =
     (let t = read_int16_le scratchpad in
      if familyCode s = 0x10 then
        (let temp = sint t * 5000 in
         if resolution s > BSResolution9bits then
           (if length scratchpad \<le> 7 then Inl Panic
            else
              let countRemain = uint (scratchpad ! 6);
                  countPerC = uint (scratchpad ! 7)
              in if countPerC = 0 then Inl Panic
                 else Inr (temp - 2500 + (10000 * (countPerC - countRemain)) sdiv countPerC))
         else Inr temp)
      else if familyCode s = 0x22 \<or> familyCode s = 0x28 then
        Inr ((sint t * 10000) sdiv 16)
      else Inr 0)"

definition GetTemperature ::
  "TemperatureSensor \<Rightarrow> 'b bus_ops \<Rightarrow> 'b \<Rightarrow> ((error + int) \<times> 'b) option" where
  "GetTemperature s ops bus =
     (case convertT s ops bus of
        None \<Rightarrow> None
      | Some (Some err, bus1) \<Rightarrow> Some (Inl err, bus1)
      | Some (None, bus1) \<Rightarrow>
     (case readScratchpad s ops bus1 of
        (Inl err, bus2) \<Rightarrow> Some (Inl err, bus2)
      | (Inr sp, bus2) \<Rightarrow>
     (case calcTemperature s sp of
        Inl err \<Rightarrow> Some (Inl err, bus2)
      | Inr temp \<Rightarrow> Some (Inr (temp sdiv 100), bus2))))"

section \<open>Reset over the serial transport\<close>

text \<open>
  The serial port is an external collaborator: what it answers is not decided by the
  program.  It is modelled as a port that answers its k-th call with the k-th reply of an
  arbitrary script and keeps a record of the calls made.  A reply carries the error, the
  count a \<open>Write\<close> reports and the bytes a \<open>Read\<close> delivers; an exhausted script answers
  with a transport error.
\<close>

datatype port_call =
    SetMode nat
  | ResetOutputBuffer
  | ResetInputBuffer
  | PortWrite "byte list"
  | PortRead nat
  | PortClose
  | OpenPort nat

record reply =
  r_err :: "error option"
  r_count :: nat
  r_data :: "byte list"

record port =
  replies :: "reply list"
  calls :: "port_call list"

definition port_call :: "port_call \<Rightarrow> port \<Rightarrow> reply \<times> port" where
  "port_call c p =
     (case replies p of
        [] \<Rightarrow> (\<lparr>r_err = Some (Transport 0), r_count = 0, r_data = []\<rparr>,
               p\<lparr>calls := calls p @ [c]\<rparr>)
      | r # rs \<Rightarrow> (r, p\<lparr>replies := rs, calls := calls p @ [c]\<rparr>))"

text \<open>A call that returns only an error.\<close>

definition port_do :: "port_call \<Rightarrow> port \<Rightarrow> error option \<times> port" where
  "port_do c p = (let (r, p1) = port_call c p in (r_err r, p1))"

text \<open>\<open>Write(data)\<close> returns the count and the error.\<close>

definition port_Write :: "byte list \<Rightarrow> port \<Rightarrow> (nat \<times> error option) \<times> port" where
  "port_Write data p = (let (r, p1) = port_call (PortWrite data) p in ((r_count r, r_err r), p1))"

text \<open>
  \<open>Read(buffer)\<close> fills at most \<open>len(buffer)\<close> bytes and returns their number and the
  error; the result here is the filled part.
\<close>

definition port_Read :: "nat \<Rightarrow> port \<Rightarrow> (byte list \<times> error option) \<times> port" where
  "port_Read len p = (let (r, p1) = port_call (PortRead len) p in ((take len (r_data r), r_err r), p1))"

subsection \<open>\<open>reset\<close> of src/bus-driver.go\<close>

record adapter =
  mode_BaudRate :: nat
  uart :: port

definition clear :: "adapter \<Rightarrow> error option \<times> adapter" where
  "clear a =
     (case port_do ResetOutputBuffer (uart a) of
        (Some err, p1) \<Rightarrow> (Some err, a\<lparr>uart := p1\<rparr>)
      | (None, p1) \<Rightarrow>
     (case port_do ResetInputBuffer p1 of
        (Some err, p2) \<Rightarrow> (Some err, a\<lparr>uart := p2\<rparr>)
      | (None, p2) \<Rightarrow> (None, a\<lparr>uart := p2\<rparr>)))"

text \<open>The closure \<open>pulse\<close> inside \<open>reset\<close>.\<close>

definition pulse :: "adapter \<Rightarrow> error option \<times> adapter" where
  "pulse a =
     (case port_Write [0xf0] (uart a) of
        ((n, Some err), p1) \<Rightarrow> (Some err, a\<lparr>uart := p1\<rparr>)
      | ((n, None), p1) \<Rightarrow>
          if n \<noteq> 1 then (Some WriteResetPulseFailed, a\<lparr>uart := p1\<rparr>)
          else
     (case port_Read 1 p1 of
        ((buffer, Some err), p2) \<Rightarrow> (Some err, a\<lparr>uart := p2\<rparr>)
      | ((buffer, None), p2) \<Rightarrow>
          if length buffer \<noteq> 1 then (Some ReadResetPulseFailed, a\<lparr>uart := p2\<rparr>)
          else if (buffer ! 0) AND 0xf \<noteq> 0x0
            then (Some (ResetPulseError (buffer ! 0)), a\<lparr>uart := p2\<rparr>)
          else if drop_bit 4 (buffer ! 0) = 0xf then (Some NoDevicePresent, a\<lparr>uart := p2\<rparr>)
          else (None, a\<lparr>uart := p2\<rparr>)))"

definition UARTAdapter_reset :: "adapter \<Rightarrow> error option \<times> adapter" where
  "UARTAdapter_reset a =
     (let a1 = a\<lparr>mode_BaudRate := 9600\<rparr> in
      case port_do (SetMode (mode_BaudRate a1)) (uart a1) of
        (Some err, p1) \<Rightarrow> (Some err, a1\<lparr>uart := p1\<rparr>)
      | (None, p1) \<Rightarrow>
     (case clear (a1\<lparr>uart := p1\<rparr>) of
        (Some err, a2) \<Rightarrow> (Some err, a2)
      | (None, a2) \<Rightarrow>
     (let (pulseErr, a3) = pulse a2;
          a4 = a3\<lparr>mode_BaudRate := 115200\<rparr>
      in case port_do (SetMode (mode_BaudRate a4)) (uart a4) of
           (Some err, p5) \<Rightarrow> (Some err, a4\<lparr>uart := p5\<rparr>)
         | (None, p5) \<Rightarrow> (pulseErr, a4\<lparr>uart := p5\<rparr>))))"

subsection \<open>\<open>Reset\<close> of src/bus.go\<close>

text \<open>
  The older adapter closes its port and opens the device again at the other baud rate.
  \<open>uart_open\<close> tells whether \<open>a.uart\<close> is a port (not nil) and at which baud rate it was
  opened; the transport behind all ports is the scripted one.
\<close>

record tarm_adapter =
  uart_open :: "nat option"
  line :: port

definition UARTAdapter_Close :: "tarm_adapter \<Rightarrow> error option \<times> tarm_adapter" where
  "UARTAdapter_Close a =
     (case uart_open a of
        None \<Rightarrow> (None, a)
      | Some baud \<Rightarrow>
          (case port_do PortClose (line a) of
             (Some err, p1) \<Rightarrow> (Some err, a\<lparr>line := p1\<rparr>)
           | (None, p1) \<Rightarrow> (None, a\<lparr>line := p1\<rparr>)))"

definition UARTAdapter_Reset :: "tarm_adapter \<Rightarrow> error option \<times> tarm_adapter" where
  "UARTAdapter_Reset a =
     (case UARTAdapter_Close a of
        (Some err, a1) \<Rightarrow> (Some err, a1)
      | (None, a1) \<Rightarrow>
     (case port_do (OpenPort 9600) (line a1) of
        (Some err, p2) \<Rightarrow> (Some err, a1\<lparr>line := p2\<rparr>)
      | (None, p2) \<Rightarrow>
     (case port_Write [0xf0] p2 of
        ((n, Some err), p3) \<Rightarrow> (Some err, a1\<lparr>line := p3\<rparr>)
      | ((n, None), p3) \<Rightarrow>
     (case port_Read 1 p3 of
        ((buffer, Some err), p4) \<Rightarrow> (Some err, a1\<lparr>line := p4\<rparr>)
      | ((buffer, None), p4) \<Rightarrow>
          if length buffer \<noteq> 1 then (Some (ResetBitsExpected (length buffer)), a1\<lparr>line := p4\<rparr>)
          else if buffer ! 0 = 0xff then (Some NoDevicePresent, a1\<lparr>line := p4\<rparr>)
          else if buffer ! 0 < 0x10 \<or> buffer ! 0 > 0xe0
            then (Some (PresenceError (buffer ! 0)), a1\<lparr>line := p4\<rparr>)
          else
     (case port_do (OpenPort 115200) p4 of
        (Some err, p5) \<Rightarrow> (Some err, a1\<lparr>line := p5\<rparr>)
      | (None, p5) \<Rightarrow> (None, a1\<lparr>uart_open := Some 115200, line := p5\<rparr>))))))"

section \<open>A simulated bus\<close>

text \<open>
  The devices of a 1-Wire line as they take part in a search.  After a reset pulse every
  device waits for a ROM command.  After Search ROM (\<open>0xf0\<close>) all devices, after Alarm
  Search (\<open>0xec\<close>) the devices with a set alarm flag, walk through their 64 ROM bits,
  least significant bit of the family code first: in the first read slot of a position
  each participant sends its bit, in the second the complement, and in the third slot it
  takes the direction bit written by the master and drops out unless that is its own
  bit.  The line is a wired AND: it reads 0 as soon as one device sends 0, and 1 when
  nobody drives it.  A device is its ROM code with its alarm flag.
\<close>

datatype sim_slot = SendBit | SendComplement | TakeDirection

datatype sim_phase = Idle | AwaitCommand | Searching "ROM list" nat sim_slot

record sim_bus =
  sim_devices :: "(ROM \<times> bool) list"
  sim_phase :: sim_phase
  sim_clock :: int

definition dev_bit :: "ROM \<Rightarrow> nat \<Rightarrow> byte" where
  "dev_bit r i = (if bit (Code r ! (i div 8)) (i mod 8) then 0b1 else 0b0)"

definition wired_and :: "byte list \<Rightarrow> byte" where
  "wired_and sent = (if 0b0 \<in> set sent then 0b0 else 0b1)"

definition sim_Reset :: "sim_bus \<Rightarrow> error option \<times> sim_bus" where
  "sim_Reset s =
     (if sim_devices s = [] then (Some NoDevicePresent, s\<lparr>sim_phase := Idle\<rparr>)
      else (None, s\<lparr>sim_phase := AwaitCommand\<rparr>))"

definition sim_WriteByte :: "byte \<Rightarrow> sim_bus \<Rightarrow> error option \<times> sim_bus" where
  "sim_WriteByte c s =
     (None,
      s\<lparr>sim_phase :=
          (case sim_phase s of
             AwaitCommand \<Rightarrow>
               if c = 0xf0 then Searching (map fst (sim_devices s)) 0 SendBit
               else if c = 0xec then Searching (map fst (filter snd (sim_devices s))) 0 SendBit
               else Idle
           | other \<Rightarrow> Idle)\<rparr>)"

definition sim_ReadBit :: "sim_bus \<Rightarrow> (error + byte) \<times> sim_bus" where
  "sim_ReadBit s =
     (case sim_phase s of
        Searching ds i SendBit \<Rightarrow>
          if i < 64
          then (Inr (wired_and (map (\<lambda>d. dev_bit d i) ds)),
                s\<lparr>sim_phase := Searching ds i SendComplement\<rparr>)
          else (Inr 0b1, s)
      | Searching ds i SendComplement \<Rightarrow>
          (Inr (wired_and (map (\<lambda>d. 1 - dev_bit d i) ds)),
           s\<lparr>sim_phase := Searching ds i TakeDirection\<rparr>)
      | other \<Rightarrow> (Inr 0b1, s))"

definition sim_WriteBit :: "byte \<Rightarrow> sim_bus \<Rightarrow> error option \<times> sim_bus" where
  "sim_WriteBit b s =
     (case sim_phase s of
        Searching ds i TakeDirection \<Rightarrow>
          (None, s\<lparr>sim_phase := Searching (filter (\<lambda>d. dev_bit d i = b mod 2) ds) (i + 1) SendBit\<rparr>)
      | other \<Rightarrow> (None, s))"

definition sim_ops :: "sim_bus bus_ops" where
  "sim_ops =
     \<lparr> b_Reset = sim_Reset, b_ReadBit = sim_ReadBit, b_WriteBit = sim_WriteBit,
       b_ReadByte = (\<lambda>s. (Inr 0xff, s)), b_WriteByte = sim_WriteByte,
       b_now = sim_clock, b_sleep = (\<lambda>d s. s\<lparr>sim_clock := sim_clock s + d\<rparr>) \<rparr>"

definition sim_line :: "(ROM \<times> bool) list \<Rightarrow> sim_bus" where
  "sim_line devices = \<lparr> sim_devices = devices, sim_phase = Idle, sim_clock = 0 \<rparr>"

section \<open>A scripted bus\<close>

text \<open>
  A bus for running the sensor code on given data: resets and writes succeed, byte and
  bit reads take the next value of a queue and fail with a transport error on an empty
  queue, every bit read takes one time unit, and all calls are recorded.
\<close>

datatype bus_call = DoReset | DoReadBit | DoWriteBit byte | DoReadByte | DoWriteByte byte

record script_bus =
  sb_bytes :: "byte list"
  sb_bits :: "byte list"
  sb_clock :: int
  sb_calls :: "bus_call list"

definition script_ReadBit :: "script_bus \<Rightarrow> (error + byte) \<times> script_bus" where
  "script_ReadBit s =
     (case sb_bits s of
        [] \<Rightarrow> (Inl (Transport 1), s\<lparr>sb_clock := sb_clock s + 1, sb_calls := sb_calls s @ [DoReadBit]\<rparr>)
      | b # bs \<Rightarrow>
          (Inr b, s\<lparr>sb_bits := bs, sb_clock := sb_clock s + 1, sb_calls := sb_calls s @ [DoReadBit]\<rparr>))"

definition script_ReadByte :: "script_bus \<Rightarrow> (error + byte) \<times> script_bus" where
  "script_ReadByte s =
     (case sb_bytes s of
        [] \<Rightarrow> (Inl (Transport 8), s\<lparr>sb_calls := sb_calls s @ [DoReadByte]\<rparr>)
      | b # bs \<Rightarrow> (Inr b, s\<lparr>sb_bytes := bs, sb_calls := sb_calls s @ [DoReadByte]\<rparr>))"

definition script_ops :: "script_bus bus_ops" where
  "script_ops =
     \<lparr> b_Reset = (\<lambda>s. (None, s\<lparr>sb_calls := sb_calls s @ [DoReset]\<rparr>)),
       b_ReadBit = script_ReadBit,
       b_WriteBit = (\<lambda>b s. (None, s\<lparr>sb_calls := sb_calls s @ [DoWriteBit b]\<rparr>)),
       b_ReadByte = script_ReadByte,
       b_WriteByte = (\<lambda>b s. (None, s\<lparr>sb_calls := sb_calls s @ [DoWriteByte b]\<rparr>)),
       b_now = sb_clock,
       b_sleep = (\<lambda>d s. s\<lparr>sb_clock := sb_clock s + d\<rparr>) \<rparr>"

definition script_line :: "byte list \<Rightarrow> byte list \<Rightarrow> script_bus" where
  "script_line bytes bits = \<lparr> sb_bytes = bytes, sb_bits = bits, sb_clock = 0, sb_calls = [] \<rparr>"

section \<open>Notions used in the statements\<close>

text \<open>Two bytes read as a little-endian two's complement number of 16 bits.\<close>

definition int16_le :: "byte \<Rightarrow> byte \<Rightarrow> int" where
  "int16_le b0 b1 =
     (if uint b1 < 128 then uint b0 + 256 * uint b1 else uint b0 + 256 * uint b1 - 65536)"

text \<open>The sensor value of the decoding tests: only the family code and the resolution set.\<close>

definition test_sensor :: "byte \<Rightarrow> byte \<Rightarrow> TemperatureSensor" where
  "test_sensor family res =
     \<lparr> rom = None, familyCode = family, singleMode = False, parasiticMode = False,
       resolution = res, description = [], precision = [], tConv = 0, tRW = 0 \<rparr>"

text \<open>
  \<open>n\<close> successive byte reads, started in a given bus state: whether they all succeed, the
  bytes they deliver up to the first failure, and the bus state they leave.
\<close>

primrec reads_ok :: "'b bus_ops \<Rightarrow> nat \<Rightarrow> 'b \<Rightarrow> bool" where
  "reads_ok ops 0 bus = True"
| "reads_ok ops (Suc n) bus =
     (case b_ReadByte ops bus of
        (Inl err, bus1) \<Rightarrow> False
      | (Inr v, bus1) \<Rightarrow> reads_ok ops n bus1)"

primrec read_values :: "'b bus_ops \<Rightarrow> nat \<Rightarrow> 'b \<Rightarrow> byte list" where
  "read_values ops 0 bus = []"
| "read_values ops (Suc n) bus =
     (case b_ReadByte ops bus of
        (Inl err, bus1) \<Rightarrow> []
      | (Inr v, bus1) \<Rightarrow> v # read_values ops n bus1)"

primrec after_reads :: "'b bus_ops \<Rightarrow> nat \<Rightarrow> 'b \<Rightarrow> 'b" where
  "after_reads ops 0 bus = bus"
| "after_reads ops (Suc n) bus =
     (case b_ReadByte ops bus of
        (Inl err, bus1) \<Rightarrow> bus1
      | (Inr v, bus1) \<Rightarrow> after_reads ops n bus1)"

text \<open>A sensor in single mode and scripted bus states for running the scratchpad code.\<close>

definition single_sensor :: "byte \<Rightarrow> TemperatureSensor" where
  "single_sensor family = (test_sensor family 0)\<lparr>singleMode := True\<rparr>"

definition converted_line :: "byte list \<Rightarrow> script_bus" where
  "converted_line bytes =
     \<lparr> sb_bytes = bytes, sb_bits = [], sb_clock = 1,
       sb_calls = [DoReset, DoWriteByte 0xcc, DoWriteByte 0x44, DoReadBit] \<rparr>"

definition selected_line :: "byte list \<Rightarrow> script_bus" where
  "selected_line bytes = (converted_line bytes)\<lparr>sb_calls := sb_calls (converted_line bytes) @ [DoReset, DoWriteByte 0xcc]\<rparr>"

definition commanded_line :: "byte list \<Rightarrow> script_bus" where
  "commanded_line bytes = (selected_line bytes)\<lparr>sb_calls := sb_calls (selected_line bytes) @ [DoWriteByte 0xbe]\<rparr>"

definition ok_reply :: "nat \<Rightarrow> byte list \<Rightarrow> reply" where
  "ok_reply n data = \<lparr> r_err = None, r_count = n, r_data = data \<rparr>"

definition failed_reply :: reply where
  "failed_reply = \<lparr> r_err = Some (Transport 5), r_count = 0, r_data = [] \<rparr>"

definition fresh_adapter :: "reply list \<Rightarrow> adapter" where
  "fresh_adapter script = \<lparr> mode_BaudRate = 115200, uart = \<lparr> replies = script, calls = [] \<rparr> \<rparr>"

definition fresh_tarm_adapter :: "reply list \<Rightarrow> tarm_adapter" where
  "fresh_tarm_adapter script = \<lparr> uart_open = Some 115200, line = \<lparr> replies = script, calls = [] \<rparr> \<rparr>"

text \<open>The verdict of \<open>pulse\<close> on an echoed byte, and that of the older \<open>Reset\<close>.\<close>

definition nibble_verdict :: "byte \<Rightarrow> error option" where
  "nibble_verdict b =
     (if b AND 0xf \<noteq> 0 then Some (ResetPulseError b)
      else if drop_bit 4 b = 0xf then Some NoDevicePresent
      else None)"

definition range_verdict :: "byte \<Rightarrow> error option" where
  "range_verdict b =
     (if b = 0xff then Some NoDevicePresent
      else if b < 0x10 \<or> b > 0xe0 then Some (PresenceError b)
      else None)"

text \<open>The bytes denoted by a sequence of hexadecimal digit values, taken in pairs.\<close>

fun hex_bytes :: "nat list \<Rightarrow> byte list" where
  "hex_bytes (d1 # d2 # ds) = of_nat (16 * d1 + d2) # hex_bytes ds"
| "hex_bytes ds = []"

definition reset_done_line :: "byte list \<Rightarrow> script_bus" where
  "reset_done_line bytes = (script_line bytes [])\<lparr>sb_calls := [DoReset]\<rparr>"

definition read_rom_line :: "byte list \<Rightarrow> script_bus" where
  "read_rom_line bytes = (script_line bytes [])\<lparr>sb_calls := [DoReset, DoWriteByte 0x33]\<rparr>"

section \<open>Decoding the DS18B20 temperature\<close>

lemma sdiv_10000_16: "(x * 10000) sdiv (16::int) = x * 625"
  by (simp add: signed_divide_int_eq_divide_int)

lemma ucast_or_push_bit_add:
  "(ucast (a::byte) :: 16 word) OR push_bit 8 (ucast (b::byte)) = ucast a + push_bit 8 (ucast b)"
  by (rule disjunctive_add_eq_or [symmetric])
     (auto simp add: bit_eq_iff bit_simps dest: bit_imp_le_length)

lemma uint_le16:
  "uint ((ucast (a::byte) :: 16 word) OR push_bit 8 (ucast (b::byte))) = uint a + 256 * uint b"
proof -
  have a: "uint a < 256" using uint_bounded [of a] by simp
  have b: "uint b < 256" using uint_bounded [of b] by simp
  have "uint (ucast a + push_bit 8 (ucast b) :: 16 word) = (uint a + 256 * uint b) mod 65536"
    by (simp add: uint_word_ariths uint_up_ucast is_up unsigned_push_bit_eq push_bit_eq_mult
          take_bit_eq_mod unsigned_ucast_eq mod_simps mult.commute)
  also have "\<dots> = uint a + 256 * uint b" using a b by simp
  finally show ?thesis by (simp add: ucast_or_push_bit_add)
qed

lemma sint_le16:
  "sint ((ucast (a::byte) :: 16 word) OR push_bit 8 (ucast (b::byte))) = int16_le a b"
proof -
  define x where "x = uint a + 256 * uint b"
  have a: "0 \<le> uint a" "uint a < 256" using uint_bounded [of a] by simp_all
  have b: "0 \<le> uint b" "uint b < 256" using uint_bounded [of b] by simp_all
  have s: "sint ((ucast a :: 16 word) OR push_bit 8 (ucast b)) = (x + 32768) mod 65536 - 32768"
    by (simp add: sint_uint uint_le16 signed_take_bit_eq_take_bit_shift take_bit_eq_mod x_def)
  show ?thesis
  proof (cases "uint b < 128")
    case True
    then have "0 \<le> x + 32768" "x + 32768 < 65536" using a b unfolding x_def by linarith+
    then have "(x + 32768) mod 65536 = x + 32768" by simp
    with True s show ?thesis by (simp add: x_def int16_le_def)
  next
    case False
    then have r: "0 \<le> x - 32768" "x - 32768 < 65536" using a b unfolding x_def by linarith+
    have "(x + 32768) mod 65536 = (x - 32768 + 65536) mod 65536" by (simp add: add.commute)
    also have "\<dots> = (x - 32768) mod 65536" by (rule mod_add_self2)
    also have "\<dots> = x - 32768" using r by simp
    finally show ?thesis using False s by (simp add: x_def int16_le_def)
  qed
qed

lemma read_int16_le_Cons: "sint (read_int16_le (b0 # b1 # rest)) = int16_le b0 b1"
  by (simp add: read_int16_le_def sint_le16)

lemma calcTemperature_0x28:
  "familyCode s = 0x28 \<Longrightarrow>
   calcTemperature s (b0 # b1 # rest) = Inr ((int16_le b0 b1 * 10000) sdiv 16)"
  by (simp add: calcTemperature_def Let_def read_int16_le_Cons)

text \<open>
  Claim C5.  For a sensor of family \<open>0x28\<close>, \<open>calcTemperature\<close> reads scratchpad bytes 0 and
  1 as a signed little-endian 16-bit count \<open>raw\<close> and returns \<open>raw * 10000 / 16\<close>, which is
  exactly \<open>raw * 625\<close>; the five vectors of the specification come out as stated, whatever
  the other scratchpad bytes are.
\<close>

theorem calcTemperature_DS18B20:
  assumes "familyCode s = 0x28"
  shows "calcTemperature s (b0 # b1 # rest) = Inr ((int16_le b0 b1 * 10000) sdiv 16)
       \<and> (int16_le b0 b1 * 10000) sdiv 16 = int16_le b0 b1 * 625
       \<and> calcTemperature s (0xD0 # 0x07 # rest) = Inr 1250000
       \<and> calcTemperature s (0x50 # 0x05 # rest) = Inr 850000
       \<and> calcTemperature s (0x91 # 0x01 # rest) = Inr 250625
       \<and> calcTemperature s (0xF8 # 0xFF # rest) = Inr (- 5000)
       \<and> calcTemperature s (0x90 # 0xFC # rest) = Inr (- 550000)"
  using assms by (simp add: calcTemperature_0x28 sdiv_10000_16 int16_le_def)

theorem calcTemperature_DS18B20_witness:
  "familyCode (test_sensor 0x28 0) = 0x28
   \<and> calcTemperature (test_sensor 0x28 0) [0xD0, 0x07, 0x00, 0x00, 0x00, 0xff, 0x00, 0x10]
       = Inr 1250000
   \<and> calcTemperature (test_sensor 0x28 0) [0x90, 0xFC, 0x00, 0x00, 0x00, 0xff, 0x00, 0x10]
       = Inr (- 550000)"
proof -
  have h: "familyCode (test_sensor 0x28 0) = 0x28" by (simp add: test_sensor_def)
  show ?thesis
    using h calcTemperature_DS18B20 [OF h, of 0 0 "[0x00, 0x00, 0x00, 0xff, 0x00, 0x10]"]
    by simp
qed

section \<open>Multi-byte reads\<close>

declare read_bytes_loop.simps [simp del]

lemma read_bytes_loop_ok:
  "reads_ok ops n bus \<Longrightarrow> i + n = length buffer \<Longrightarrow>
   read_bytes_loop ops i buffer bus =
     ((length buffer, None), take i buffer @ read_values ops n bus, after_reads ops n bus)"
proof (induction n arbitrary: i buffer bus)
  case 0
  then show ?case by (subst read_bytes_loop.simps) simp
next
  case (Suc n)
  from Suc.prems(1) obtain v bus1 where r: "b_ReadByte ops bus = (Inr v, bus1)"
    and ok: "reads_ok ops n bus1"
    by (auto split: prod.splits sum.splits)
  from Suc.prems(2) have i: "i < length buffer" by simp
  have len: "Suc i + n = length (buffer[i := v])" using Suc.prems(2) by simp
  have t: "take (Suc i) (buffer[i := v]) = take i buffer @ [v]"
    using i by (simp add: take_Suc_conv_app_nth)
  show ?case
    using i r Suc.IH [OF ok len] t
    by (subst read_bytes_loop.simps) simp
qed

lemma read_bytes_loop_fails:
  "\<not> reads_ok ops n bus \<Longrightarrow> i + n = length buffer \<Longrightarrow>
   \<exists>k err buffer1 bus1. read_bytes_loop ops i buffer bus = ((k, Some err), buffer1, bus1)"
proof (induction n arbitrary: i buffer bus)
  case 0
  then show ?case by simp
next
  case (Suc n)
  from Suc.prems(2) have i: "i < length buffer" by simp
  obtain r bus1 where rb: "b_ReadByte ops bus = (r, bus1)" by (cases "b_ReadByte ops bus")
  show ?case
  proof (cases r)
    case (Inl err)
    with rb i show ?thesis by (subst read_bytes_loop.simps) simp
  next
    case (Inr v)
    with rb Suc.prems(1) have nok: "\<not> reads_ok ops n bus1" by simp
    have len: "Suc i + n = length (buffer[i := v])" using Suc.prems(2) by simp
    from Suc.IH [OF nok len] rb Inr i show ?thesis
      by (subst read_bytes_loop.simps) simp
  qed
qed

lemma length_read_values: "reads_ok ops n bus \<Longrightarrow> length (read_values ops n bus) = n"
  by (induction n arbitrary: bus) (auto split: prod.splits sum.splits)

lemma ReadBytes_ok:
  "reads_ok ops (length buffer) bus \<Longrightarrow>
   ReadBytes ops buffer bus =
     ((length buffer + 1, None), read_values ops (length buffer) bus,
      after_reads ops (length buffer) bus)"
  by (simp add: ReadBytes_def read_bytes_loop_ok [where i = 0])

lemma ReadBytes_fails:
  "\<not> reads_ok ops (length buffer) bus \<Longrightarrow>
   \<exists>k err buffer1 bus1. ReadBytes ops buffer bus = ((k, Some err), buffer1, bus1)"
  using read_bytes_loop_fails [of ops "length buffer" bus 0 buffer]
  by (auto simp add: ReadBytes_def)

text \<open>
  Claim C9.  When all \<open>len(buffer)\<close> byte reads succeed, \<open>ReadBytes\<close> of src/bus.go leaves
  the bytes read in the buffer, all \<open>len(buffer)\<close> of them, but returns the count
  \<open>len(buffer) + 1\<close>; \<open>readBytes\<close> of src/bus-driver.go fills the buffer in the same way and
  returns the count \<open>len(buffer)\<close>.
\<close>

theorem ReadBytes_count_one_too_many:
  assumes "reads_ok ops (length buffer) bus"
  shows "ReadBytes ops buffer bus =
           ((length buffer + 1, None), read_values ops (length buffer) bus,
            after_reads ops (length buffer) bus)
       \<and> readBytes ops buffer bus =
           ((length buffer, None), read_values ops (length buffer) bus,
            after_reads ops (length buffer) bus)
       \<and> length (read_values ops (length buffer) bus) = length buffer"
  using assms
  by (simp add: ReadBytes_ok readBytes_def read_bytes_loop_ok [where i = 0] length_read_values)

theorem ReadBytes_count_one_too_many_witness:
  "reads_ok script_ops 3 (script_line [0x11, 0x22, 0x33, 0x44] [])
   \<and> fst (ReadBytes script_ops [0, 0, 0] (script_line [0x11, 0x22, 0x33, 0x44] [])) = (4, None)
   \<and> fst (snd (ReadBytes script_ops [0, 0, 0] (script_line [0x11, 0x22, 0x33, 0x44] [])))
       = [0x11, 0x22, 0x33]
   \<and> fst (readBytes script_ops [0, 0, 0] (script_line [0x11, 0x22, 0x33, 0x44] [])) = (3, None)"
proof -
  have h: "reads_ok script_ops (length [0, 0, 0 :: byte]) (script_line [0x11, 0x22, 0x33, 0x44] [])"
    by (simp add: script_ops_def script_ReadByte_def script_line_def eval_nat_numeral)
  show ?thesis
    using h ReadBytes_count_one_too_many [OF h]
    by (simp add: script_ops_def script_ReadByte_def script_line_def eval_nat_numeral)
qed

section \<open>Setting the resolution of an unknown family\<close>

text \<open>
  Claim C10.  For a sensor whose family code is none of \<open>0x10\<close>, \<open>0x22\<close> and \<open>0x28\<close>,
  \<open>SetResolution\<close> returns nil for every argument and leaves the sensor (resolution,
  precision, conversion time and all other fields) and the bus as they were: it calls no
  bus primitive.
\<close>

theorem SetResolution_other_family:
  assumes "familyCode s \<noteq> 0x10" "familyCode s \<noteq> 0x22" "familyCode s \<noteq> 0x28"
  shows "SetResolution s ops r bus = (None, s, bus)"
  using assms by (simp add: SetResolution_def)

theorem SetResolution_other_family_witness:
  "familyCode (test_sensor 0x3b 0) \<noteq> 0x10 \<and> familyCode (test_sensor 0x3b 0) \<noteq> 0x22
   \<and> familyCode (test_sensor 0x3b 0) \<noteq> 0x28
   \<and> SetResolution (test_sensor 0x3b 0) script_ops 3 (script_line [] [])
       = (None, test_sensor 0x3b 0, script_line [] [])
   \<and> sb_calls (snd (snd (SetResolution (test_sensor 0x3b 0) script_ops 3 (script_line [] []))))
       = []"
proof -
  have h: "familyCode (test_sensor 0x3b 0) \<noteq> 0x10" "familyCode (test_sensor 0x3b 0) \<noteq> 0x22"
    "familyCode (test_sensor 0x3b 0) \<noteq> 0x28"
    by (simp_all add: test_sensor_def)
  show ?thesis
    using h SetResolution_other_family [OF h, of script_ops 3 "script_line [] []"]
    by (simp add: script_line_def)
qed

section \<open>Reading the scratchpad\<close>

lemma GetTemperature_scratchpad_error:
  "convertT s ops bus0 = Some (None, bus) \<Longrightarrow> readScratchpad s ops bus = (Inl err, bus3) \<Longrightarrow>
   GetTemperature s ops bus0 = Some (Inl err, bus3)"
  by (simp add: GetTemperature_def)

lemma readScratchpad_after_command:
  "TemperatureSensor_reset s ops bus = (None, bus1) \<Longrightarrow>
   b_WriteByte ops 0xbe bus1 = (None, bus2) \<Longrightarrow>
   readScratchpad s ops bus =
     (case ReadBytes ops (replicate 9 0x00) bus2 of
        ((n, Some err), data, bus3) \<Rightarrow> (Inl err, bus3)
      | ((n, None), data, bus3) \<Rightarrow>
          if crc8 (take 8 data) \<noteq> data ! 8 then (Inl ScratchpadCrcError, bus3)
          else (Inr (take 8 data), bus3))"
  by (simp add: readScratchpad_def Let_def)

text \<open>
  Claim C6.  Once the device is selected and the command \<open>0xbe\<close> is written,
  \<open>readScratchpad\<close> makes nine byte reads.  If they succeed it fails with the scratchpad
  CRC error when \<open>crc8\<close> of the first eight bytes differs from the ninth and returns
  exactly the first eight bytes otherwise, with the bus left after the ninth read; if one
  of them fails it returns an error and no data.  \<open>GetTemperature\<close> passes an error of
  \<open>readScratchpad\<close> on and returns no temperature.
\<close>

theorem readScratchpad_crc_checked:
  assumes "TemperatureSensor_reset s ops bus = (None, bus1)"
      and "b_WriteByte ops 0xbe bus1 = (None, bus2)"
  shows "(reads_ok ops 9 bus2 \<longrightarrow>
            length (read_values ops 9 bus2) = 9 \<and>
            readScratchpad s ops bus =
              (if crc8 (take 8 (read_values ops 9 bus2)) = read_values ops 9 bus2 ! 8
               then (Inr (take 8 (read_values ops 9 bus2)), after_reads ops 9 bus2)
               else (Inl ScratchpadCrcError, after_reads ops 9 bus2)))
       \<and> (\<not> reads_ok ops 9 bus2 \<longrightarrow> (\<exists>err bus3. readScratchpad s ops bus = (Inl err, bus3)))
       \<and> (\<forall>bus0 err bus3.
            convertT s ops bus0 = Some (None, bus) \<longrightarrow>
            readScratchpad s ops bus = (Inl err, bus3) \<longrightarrow>
            GetTemperature s ops bus0 = Some (Inl err, bus3))"
proof (intro conjI impI allI)
  assume ok: "reads_ok ops 9 bus2"
  then show "length (read_values ops 9 bus2) = 9" by (rule length_read_values)
  from ok have "reads_ok ops (length (replicate 9 (0x00::byte))) bus2" by simp
  from ReadBytes_ok [OF this]
  show "readScratchpad s ops bus =
      (if crc8 (take 8 (read_values ops 9 bus2)) = read_values ops 9 bus2 ! 8
       then (Inr (take 8 (read_values ops 9 bus2)), after_reads ops 9 bus2)
       else (Inl ScratchpadCrcError, after_reads ops 9 bus2))"
    by (simp add: readScratchpad_after_command [OF assms])
next
  assume "\<not> reads_ok ops 9 bus2"
  then have "\<not> reads_ok ops (length (replicate 9 (0x00::byte))) bus2" by simp
  from ReadBytes_fails [OF this]
  show "\<exists>err bus3. readScratchpad s ops bus = (Inl err, bus3)"
    by (auto simp add: readScratchpad_after_command [OF assms])
next
  fix bus0 err bus3
  assume "convertT s ops bus0 = Some (None, bus)" "readScratchpad s ops bus = (Inl err, bus3)"
  then show "GetTemperature s ops bus0 = Some (Inl err, bus3)"
    by (rule GetTemperature_scratchpad_error)
qed

lemma script_simps:
  "b_Reset script_ops = (\<lambda>s. (None, s\<lparr>sb_calls := sb_calls s @ [DoReset]\<rparr>))"
  "b_WriteByte script_ops = (\<lambda>b s. (None, s\<lparr>sb_calls := sb_calls s @ [DoWriteByte b]\<rparr>))"
  "b_ReadByte script_ops = script_ReadByte"
  "b_ReadBit script_ops = script_ReadBit"
  "b_now script_ops = sb_clock"
  by (simp_all add: script_ops_def)

theorem readScratchpad_crc_checked_witness:
  "TemperatureSensor_reset (single_sensor 0x28) script_ops
       (converted_line [0xD0, 0x07, 0x4B, 0x46, 0x7F, 0xFF, 0x0C, 0x10, 0x00])
     = (None, selected_line [0xD0, 0x07, 0x4B, 0x46, 0x7F, 0xFF, 0x0C, 0x10, 0x00])
   \<and> b_WriteByte script_ops 0xbe (selected_line [0xD0, 0x07, 0x4B, 0x46, 0x7F, 0xFF, 0x0C, 0x10, 0x00])
     = (None, commanded_line [0xD0, 0x07, 0x4B, 0x46, 0x7F, 0xFF, 0x0C, 0x10, 0x00])
   \<and> reads_ok script_ops 9 (commanded_line [0xD0, 0x07, 0x4B, 0x46, 0x7F, 0xFF, 0x0C, 0x10, 0x00])
   \<and> fst (readScratchpad (single_sensor 0x28) script_ops
         (converted_line [0xD0, 0x07, 0x4B, 0x46, 0x7F, 0xFF, 0x0C, 0x10, 0x00]))
     = Inl ScratchpadCrcError
   \<and> convertT (single_sensor 0x28) script_ops
         (script_line [0xD0, 0x07, 0x4B, 0x46, 0x7F, 0xFF, 0x0C, 0x10, 0x00] [1])
     = Some (None, converted_line [0xD0, 0x07, 0x4B, 0x46, 0x7F, 0xFF, 0x0C, 0x10, 0x00])
   \<and> map_option fst (GetTemperature (single_sensor 0x28) script_ops
         (script_line [0xD0, 0x07, 0x4B, 0x46, 0x7F, 0xFF, 0x0C, 0x10, 0x00] [1]))
     = Some (Inl ScratchpadCrcError)"
proof -
  let ?bytes = "[0xD0, 0x07, 0x4B, 0x46, 0x7F, 0xFF, 0x0C, 0x10, 0x00] :: byte list"
  let ?s = "single_sensor 0x28"
  have h1: "TemperatureSensor_reset ?s script_ops (converted_line ?bytes) = (None, selected_line ?bytes)"
    by (simp add: TemperatureSensor_reset_def single_sensor_def test_sensor_def skipROM_def
          script_simps converted_line_def selected_line_def)
  have h2: "b_WriteByte script_ops 0xbe (selected_line ?bytes) = (None, commanded_line ?bytes)"
    by (simp add: script_simps commanded_line_def)
  have h3: "reads_ok script_ops 9 (commanded_line ?bytes)"
    by (simp add: script_simps script_ReadByte_def commanded_line_def selected_line_def
          converted_line_def eval_nat_numeral)
  have rv: "read_values script_ops 9 (commanded_line ?bytes) = ?bytes"
    by (simp add: script_simps script_ReadByte_def commanded_line_def selected_line_def
          converted_line_def eval_nat_numeral)
  have crc: "crc8 (take 8 ?bytes) \<noteq> ?bytes ! 8" by code_simp
  have h4: "convertT ?s script_ops (script_line ?bytes [1]) = Some (None, converted_line ?bytes)"
    by (simp add: convertT_def TemperatureSensor_reset_def single_sensor_def test_sensor_def
          skipROM_def script_simps wait_def wait_loop.simps [of script_ops]
          script_ReadBit_def script_line_def converted_line_def)
  note t = readScratchpad_crc_checked [OF h1 h2]
  from t h3 rv crc have r: "fst (readScratchpad ?s script_ops (converted_line ?bytes)) = Inl ScratchpadCrcError"
    by simp
  then obtain b3 where r3: "readScratchpad ?s script_ops (converted_line ?bytes) = (Inl ScratchpadCrcError, b3)"
    by (cases "readScratchpad ?s script_ops (converted_line ?bytes)") simp
  from t h4 r3 have "GetTemperature ?s script_ops (script_line ?bytes [1]) = Some (Inl ScratchpadCrcError, b3)"
    by blast
  with h1 h2 h3 r h4 show ?thesis by simp
qed

section \<open>The reset pulse\<close>

lemma port_do_calls: "calls (snd (port_do c p)) = calls p @ [c]"
  by (simp add: port_do_def port_call_def split: list.splits)

lemma port_do_Cons:
  "replies p = r # rs \<Longrightarrow> port_do c p = (r_err r, p\<lparr>replies := rs, calls := calls p @ [c]\<rparr>)"
  by (simp add: port_do_def port_call_def)

lemma port_Write_Cons:
  "replies p = r # rs \<Longrightarrow>
   port_Write d p = ((r_count r, r_err r), p\<lparr>replies := rs, calls := calls p @ [PortWrite d]\<rparr>)"
  by (simp add: port_Write_def port_call_def)

lemma port_Read_Cons:
  "replies p = r # rs \<Longrightarrow>
   port_Read n p = ((take n (r_data r), r_err r), p\<lparr>replies := rs, calls := calls p @ [PortRead n]\<rparr>)"
  by (simp add: port_Read_def port_call_def)

lemma pulse_calls:
  "\<exists>mid. (mid = [] \<or> mid = [PortRead 1])
       \<and> calls (uart (snd (pulse a))) = calls (uart a) @ [PortWrite [0xf0]] @ mid
       \<and> mode_BaudRate (snd (pulse a)) = mode_BaudRate a"
  by (auto simp add: pulse_def port_Write_def port_Read_def port_call_def Let_def
       split: list.splits option.splits prod.splits)

lemma pulse_echo:
  "replies (uart a) = w # rd # rest \<Longrightarrow> r_err w = None \<Longrightarrow> r_count w = 1 \<Longrightarrow>
   r_err rd = None \<Longrightarrow> r_data rd = b # others \<Longrightarrow>
   pulse a = (nibble_verdict b,
              a\<lparr>uart := (uart a)\<lparr>replies := rest,
                                  calls := calls (uart a) @ [PortWrite [0xf0], PortRead 1]\<rparr>\<rparr>)"
  by (simp add: pulse_def port_Write_Cons port_Read_Cons nibble_verdict_def)

lemma reset_setup_ok:
  assumes "replies (uart a) = r1 # r2 # r3 # rest"
    and "r_err r1 = None" "r_err r2 = None" "r_err r3 = None"
  shows "UARTAdapter_reset a =
     (let a2 = a\<lparr>mode_BaudRate := 9600,
                 uart := (uart a)\<lparr>replies := rest,
                   calls := calls (uart a) @ [SetMode 9600, ResetOutputBuffer, ResetInputBuffer]\<rparr>\<rparr>;
          (pulseErr, a3) = pulse a2;
          (e, p5) = port_do (SetMode 115200) (uart a3)
      in (case e of Some err \<Rightarrow> Some err | None \<Rightarrow> pulseErr,
          a3\<lparr>mode_BaudRate := 115200, uart := p5\<rparr>))"
  using assms
  by (simp add: UARTAdapter_reset_def clear_def port_do_Cons Let_def split: prod.splits option.splits)

lemma reset_calls:
  assumes "replies (uart a) = r1 # r2 # r3 # rest"
    and "r_err r1 = None" "r_err r2 = None" "r_err r3 = None"
  shows "mode_BaudRate (snd (UARTAdapter_reset a)) = 115200
       \<and> (\<exists>mid. (mid = [] \<or> mid = [PortRead 1])
            \<and> calls (uart (snd (UARTAdapter_reset a))) =
                calls (uart a) @ [SetMode 9600, ResetOutputBuffer, ResetInputBuffer,
                                  PortWrite [0xf0]] @ mid @ [SetMode 115200])"
proof -
  define a2 where "a2 = a\<lparr>mode_BaudRate := 9600,
                 uart := (uart a)\<lparr>replies := rest,
                   calls := calls (uart a) @ [SetMode 9600, ResetOutputBuffer, ResetInputBuffer]\<rparr>\<rparr>"
  obtain pulseErr a3 where p: "pulse a2 = (pulseErr, a3)" by (cases "pulse a2")
  obtain e p5 where d: "port_do (SetMode 115200) (uart a3) = (e, p5)"
    by (cases "port_do (SetMode 115200) (uart a3)")
  from pulse_calls [of a2] p obtain mid where mid: "mid = [] \<or> mid = [PortRead 1]"
    and c3: "calls (uart a3) = calls (uart a2) @ [PortWrite [0xf0]] @ mid"
    by auto
  from port_do_calls [of "SetMode 115200" "uart a3"] d
  have c5: "calls p5 = calls (uart a3) @ [SetMode 115200]" by simp
  have r: "snd (UARTAdapter_reset a) = a3\<lparr>mode_BaudRate := 115200, uart := p5\<rparr>"
    using reset_setup_ok [OF assms] p d by (simp add: a2_def [symmetric])
  show ?thesis using r c3 c5 mid by (simp add: a2_def)
qed

lemma reset_echo:
  assumes "replies (uart a) = r1 # r2 # r3 # w # rd # fin # rest"
    and "r_err r1 = None" "r_err r2 = None" "r_err r3 = None"
    and "r_err w = None" "r_count w = 1" "r_err rd = None" "r_data rd = b # others"
    and "r_err fin = None"
  shows "UARTAdapter_reset a =
     (nibble_verdict b,
      a\<lparr>mode_BaudRate := 115200,
        uart := (uart a)\<lparr>replies := rest,
                  calls := calls (uart a) @ [SetMode 9600, ResetOutputBuffer, ResetInputBuffer,
                                            PortWrite [0xf0], PortRead 1, SetMode 115200]\<rparr>\<rparr>)"
  using assms
  by (simp add: reset_setup_ok [OF assms(1-4)] pulse_echo [where rest = "fin # rest"] port_do_Cons)

lemma Reset_echo_rejected:
  assumes "uart_open t = Some baud" "replies (line t) = c1 # c2 # w # rd # rest"
    and "r_err c1 = None" "r_err c2 = None" "r_err w = None" "r_err rd = None"
    and "r_data rd = b # others" "range_verdict b = Some err"
  shows "UARTAdapter_Reset t =
     (Some err,
      t\<lparr>line := (line t)\<lparr>replies := rest,
                  calls := calls (line t) @ [PortClose, OpenPort 9600, PortWrite [0xf0], PortRead 1]\<rparr>\<rparr>)"
  using assms
  by (auto simp add: UARTAdapter_Reset_def UARTAdapter_Close_def port_do_Cons port_Write_Cons
        port_Read_Cons range_verdict_def split: if_splits)

lemma Reset_echo_accepted:
  assumes "uart_open t = Some baud" "replies (line t) = c1 # c2 # w # rd # fin # rest"
    and "r_err c1 = None" "r_err c2 = None" "r_err w = None" "r_err rd = None"
    and "r_data rd = b # others" "range_verdict b = None" "r_err fin = None"
  shows "UARTAdapter_Reset t =
     (None,
      t\<lparr>uart_open := Some 115200,
        line := (line t)\<lparr>replies := rest,
                  calls := calls (line t) @ [PortClose, OpenPort 9600, PortWrite [0xf0], PortRead 1,
                                            OpenPort 115200]\<rparr>\<rparr>)"
  using assms
  by (auto simp add: UARTAdapter_Reset_def UARTAdapter_Close_def port_do_Cons port_Write_Cons
        port_Read_Cons range_verdict_def split: if_splits)

text \<open>
  Claim C7, as the code has it.  \<open>reset\<close> of src/bus-driver.go switches the transport to
  9600 baud and clears both buffers.  Once these three calls have succeeded it writes the
  reset-pulse byte \<open>0xf0\<close>, reads back one byte provided the write went through, and then
  issues the switch back to 115200 baud whatever the pulse gave.  When one byte \<open>b\<close> came
  back and the switch back succeeded, the result is a reset-pulse error if the low nibble
  of \<open>b\<close> is not zero, else "no device present" if the high nibble is all ones, else
  success.  \<open>Reset\<close> of src/bus.go judges the echo by range instead (\<open>0xff\<close>: no device;
  below \<open>0x10\<close> or above \<open>0xe0\<close>: presence error; anything else: success) and opens the
  port at 115200 baud again only after an accepted echo.
\<close>

theorem reset_pulse_and_restore:
  assumes "replies (uart a) = r1 # r2 # r3 # rest"
    and "r_err r1 = None" "r_err r2 = None" "r_err r3 = None"
  shows "mode_BaudRate (snd (UARTAdapter_reset a)) = 115200
       \<and> (\<exists>mid. (mid = [] \<or> mid = [PortRead 1])
            \<and> calls (uart (snd (UARTAdapter_reset a))) =
                calls (uart a) @ [SetMode 9600, ResetOutputBuffer, ResetInputBuffer,
                                  PortWrite [0xf0]] @ mid @ [SetMode 115200])
       \<and> (\<forall>w rd fin rest1 b others.
            rest = w # rd # fin # rest1 \<longrightarrow> r_err w = None \<longrightarrow> r_count w = 1 \<longrightarrow>
            r_err rd = None \<longrightarrow> r_data rd = b # others \<longrightarrow> r_err fin = None \<longrightarrow>
            fst (UARTAdapter_reset a) = nibble_verdict b
            \<and> calls (uart (snd (UARTAdapter_reset a))) =
                calls (uart a) @ [SetMode 9600, ResetOutputBuffer, ResetInputBuffer,
                                  PortWrite [0xf0], PortRead 1, SetMode 115200])
       \<and> (\<forall>(t::tarm_adapter) baud c1 c2 w rd fin rest1 b others.
            uart_open t = Some baud \<longrightarrow> replies (line t) = c1 # c2 # w # rd # fin # rest1 \<longrightarrow>
            r_err c1 = None \<longrightarrow> r_err c2 = None \<longrightarrow> r_err w = None \<longrightarrow> r_err rd = None \<longrightarrow>
            r_data rd = b # others \<longrightarrow> r_err fin = None \<longrightarrow>
            fst (UARTAdapter_Reset t) = range_verdict b
            \<and> calls (line (snd (UARTAdapter_Reset t))) =
                calls (line t) @ [PortClose, OpenPort 9600, PortWrite [0xf0], PortRead 1]
                  @ (if range_verdict b = None then [OpenPort 115200] else []))"
proof (intro conjI allI impI)
  show "mode_BaudRate (snd (UARTAdapter_reset a)) = 115200"
    using reset_calls [OF assms] by blast
  show "\<exists>mid. (mid = [] \<or> mid = [PortRead 1])
            \<and> calls (uart (snd (UARTAdapter_reset a))) =
                calls (uart a) @ [SetMode 9600, ResetOutputBuffer, ResetInputBuffer,
                                  PortWrite [0xf0]] @ mid @ [SetMode 115200]"
    using reset_calls [OF assms] by blast
next
  fix w rd fin rest1 b others
  assume h: "rest = w # rd # fin # rest1" "r_err w = None" "r_count w = 1"
    "r_err rd = None" "r_data rd = b # others" "r_err fin = None"
  have r: "replies (uart a) = r1 # r2 # r3 # w # rd # fin # rest1" using assms(1) h(1) by simp
  note e = reset_echo [OF r assms(2-4) h(2-6)]
  show "fst (UARTAdapter_reset a) = nibble_verdict b" by (simp add: e)
  show "calls (uart (snd (UARTAdapter_reset a))) =
        calls (uart a) @ [SetMode 9600, ResetOutputBuffer, ResetInputBuffer,
                          PortWrite [0xf0], PortRead 1, SetMode 115200]"
    by (simp add: e)
next
  fix t :: tarm_adapter and baud c1 c2 w rd fin rest1 b others
  assume h: "uart_open t = Some baud" "replies (line t) = c1 # c2 # w # rd # fin # rest1"
    "r_err c1 = None" "r_err c2 = None" "r_err w = None" "r_err rd = None"
    "r_data rd = b # others" "r_err fin = None"
  show "fst (UARTAdapter_Reset t) = range_verdict b"
  proof (cases "range_verdict b")
    case None
    from Reset_echo_accepted [OF h(1-7) None h(8)] None show ?thesis by simp
  next
    case (Some err)
    from Reset_echo_rejected [OF h(1-7) Some] Some show ?thesis by simp
  qed
  show "calls (line (snd (UARTAdapter_Reset t))) =
        calls (line t) @ [PortClose, OpenPort 9600, PortWrite [0xf0], PortRead 1]
          @ (if range_verdict b = None then [OpenPort 115200] else [])"
  proof (cases "range_verdict b")
    case None
    from Reset_echo_accepted [OF h(1-7) None h(8)] None show ?thesis by simp
  next
    case (Some err)
    from Reset_echo_rejected [OF h(1-7) Some] Some show ?thesis by simp
  qed
qed

theorem reset_pulse_and_restore_witness:
  "UARTAdapter_reset
     (fresh_adapter [ok_reply 0 [], ok_reply 0 [], ok_reply 0 [], ok_reply 1 [], ok_reply 0 [0xe0],
                     ok_reply 0 []])
   = (None, \<lparr> mode_BaudRate = 115200,
              uart = \<lparr> replies = [],
                       calls = [SetMode 9600, ResetOutputBuffer, ResetInputBuffer,
                                PortWrite [0xf0], PortRead 1, SetMode 115200] \<rparr> \<rparr>)
   \<and> fst (UARTAdapter_reset
     (fresh_adapter [ok_reply 0 [], ok_reply 0 [], ok_reply 0 [], ok_reply 1 [], ok_reply 0 [0xf0],
                     ok_reply 0 []])) = Some NoDevicePresent
   \<and> fst (UARTAdapter_reset
     (fresh_adapter [ok_reply 0 [], ok_reply 0 [], ok_reply 0 [], ok_reply 1 [], ok_reply 0 [0xe1],
                     ok_reply 0 []])) = Some (ResetPulseError 0xe1)
   \<and> calls (uart (snd (UARTAdapter_reset
     (fresh_adapter [ok_reply 0 [], ok_reply 0 [], ok_reply 0 [], failed_reply, ok_reply 0 []]))))
     = [SetMode 9600, ResetOutputBuffer, ResetInputBuffer, PortWrite [0xf0], SetMode 115200]
   \<and> fst (UARTAdapter_Reset
     (fresh_tarm_adapter [ok_reply 0 [], ok_reply 0 [], ok_reply 1 [], ok_reply 0 [0xe0],
                          ok_reply 0 []])) = None"
  using reset_pulse_and_restore
    [of "fresh_adapter [ok_reply 0 [], ok_reply 0 [], ok_reply 0 [], ok_reply 1 [],
                        ok_reply 0 [0xe0], ok_reply 0 []]"
        "ok_reply 0 []" "ok_reply 0 []" "ok_reply 0 []"
        "[ok_reply 1 [], ok_reply 0 [0xe0], ok_reply 0 []]"]
  by (simp add: fresh_adapter_def fresh_tarm_adapter_def ok_reply_def failed_reply_def
        UARTAdapter_reset_def UARTAdapter_Reset_def UARTAdapter_Close_def clear_def pulse_def
        port_do_def port_Write_def port_Read_def port_call_def nibble_verdict_def)

theorem reset_counterexample:
  "fst (UARTAdapter_Reset
     (fresh_tarm_adapter [ok_reply 0 [], ok_reply 0 [], ok_reply 1 [], ok_reply 0 [0x11],
                          ok_reply 0 []])) = None
   \<and> fst (UARTAdapter_Reset
     (fresh_tarm_adapter [ok_reply 0 [], ok_reply 0 [], ok_reply 1 [], ok_reply 0 [0xf0],
                          ok_reply 0 []])) = Some (PresenceError 0xf0)
   \<and> calls (line (snd (UARTAdapter_Reset
     (fresh_tarm_adapter [ok_reply 0 [], ok_reply 0 [], ok_reply 1 [], ok_reply 0 [0xf0],
                          ok_reply 0 []]))))
     = [PortClose, OpenPort 9600, PortWrite [0xf0], PortRead 1]
   \<and> UARTAdapter_reset (fresh_adapter [ok_reply 0 [], failed_reply])
     = (Some (Transport 5),
        \<lparr> mode_BaudRate = 9600,
          uart = \<lparr> replies = [], calls = [SetMode 9600, ResetOutputBuffer] \<rparr> \<rparr>)"
  by (simp add: fresh_adapter_def fresh_tarm_adapter_def ok_reply_def failed_reply_def
        UARTAdapter_reset_def UARTAdapter_Reset_def UARTAdapter_Close_def clear_def pulse_def
        port_do_def port_Write_def port_Read_def port_call_def)

section \<open>CRC validity of ROM codes\<close>

lemma hex_digit_less: "hex_digit c = Some d \<Longrightarrow> d < 16"
  by (auto simp add: hex_digit_def Let_def split: if_splits)

lemma hex_digit_no_sign: "hex_digit c = Some d \<Longrightarrow> c \<noteq> CHR ''+'' \<and> c \<noteq> CHR ''-''"
  by (auto simp add: hex_digit_def Let_def split: if_splits)

lemma ParseInt_pair:
  assumes "hex_digit c1 = Some d1" "hex_digit c2 = Some d2"
  shows "ParseInt_16_16 [c1, c2] = Inr (int (16 * d1 + d2))"
  using assms hex_digit_less [OF assms(1)] hex_digit_less [OF assms(2)]
    hex_digit_no_sign [OF assms(1)]
  by (simp add: ParseInt_16_16_def Let_def)

lemma parse_rom_bytes_hex:
  "length code = 2 * k \<Longrightarrow> map hex_digit code = map Some ds \<Longrightarrow>
   parse_rom_bytes k code acc = Inr (acc @ hex_bytes ds)"
proof (induction k arbitrary: code ds acc)
  case 0
  then show ?case by simp
next
  case (Suc k)
  from Suc.prems(1) obtain c1 c2 rest where code: "code = c1 # c2 # rest"
    by (cases code; cases "tl code") auto
  with Suc.prems(2) obtain d1 d2 ds1 where ds: "ds = d1 # d2 # ds1"
    by (cases ds; cases "tl ds") auto
  from code ds Suc.prems have h: "hex_digit c1 = Some d1" "hex_digit c2 = Some d2"
    "length rest = 2 * k" "map hex_digit rest = map Some ds1"
    by simp_all
  show ?case
    using Suc.IH [OF h(3) h(4)] ParseInt_pair [OF h(1) h(2)]
    by (simp add: code ds)
qed

lemma NewROMFromString_hex:
  "length code = 16 \<Longrightarrow> map hex_digit code = map Some ds \<Longrightarrow>
   NewROMFromString code = Inr (ROM (hex_bytes ds))"
  using parse_rom_bytes_hex [of code 8 ds "[]"]
  by (simp add: NewROMFromString_def)

lemma readROM_valid: "readROM ops bus = (Inr r, bus1) \<Longrightarrow> IsValid r"
  by (auto simp add: readROM_def split: prod.splits option.splits if_splits)

lemma readROM_after_command:
  assumes "b_Reset ops bus = (None, bus1)" "b_WriteByte ops 0x33 bus1 = (None, bus2)"
    and "reads_ok ops 8 bus2"
  shows "readROM ops bus =
     (if IsValid (ROM (read_values ops 8 bus2))
      then (Inr (ROM (read_values ops 8 bus2)), after_reads ops 8 bus2)
      else (Inl CrcError, after_reads ops 8 bus2))"
proof -
  from assms(3) have "reads_ok ops (length (Code new_ROM)) bus2" by (simp add: new_ROM_def)
  from ReadBytes_ok [OF this] assms(1,2) show ?thesis
    by (simp add: readROM_def new_ROM_def)
qed

text \<open>
  Claim C3, as the code has it.  \<open>readROM\<close> returns a ROM only if \<open>crc8\<close> of its first seven
  bytes equals the eighth: after the reset, the command \<open>0x33\<close> and eight successful byte
  reads it returns exactly the bytes read when the check holds and the error "crc error"
  otherwise.  \<open>NewROMFromString\<close> makes no such check: a string of sixteen hexadecimal
  digits yields the eight bytes its digit pairs denote, whatever their CRC.
\<close>

theorem rom_crc_checked_on_read_only:
  "(\<forall>r bus3. readROM ops bus = (Inr r, bus3) \<longrightarrow> IsValid r)
   \<and> (\<forall>bus1 bus2.
        b_Reset ops bus = (None, bus1) \<longrightarrow> b_WriteByte ops 0x33 bus1 = (None, bus2) \<longrightarrow>
        reads_ok ops 8 bus2 \<longrightarrow>
        readROM ops bus =
          (if crc8 (take 7 (read_values ops 8 bus2)) = read_values ops 8 bus2 ! 7
           then (Inr (ROM (read_values ops 8 bus2)), after_reads ops 8 bus2)
           else (Inl CrcError, after_reads ops 8 bus2)))
   \<and> (\<forall>ds. length code = 16 \<longrightarrow> map hex_digit code = map Some ds \<longrightarrow>
        NewROMFromString code = Inr (ROM (hex_bytes ds)))"
  using readROM_valid [of ops bus] readROM_after_command [of ops bus]
    NewROMFromString_hex [of code]
  by (simp add: IsValid_def)

lemma hex_digits_of_test_rom:
  "map hex_digit ''2825EA520510F3CE''
     = map Some [2, 8, 2, 5, 14, 10, 5, 2, 0, 5, 1, 0, 15, 3, 12, 14]"
  by (simp add: hex_digit_def)

lemma parse_test_rom:
  "NewROMFromString ''2825EA520510F3CE''
     = Inr (ROM [0x28, 0x25, 0xEA, 0x52, 0x05, 0x10, 0xF3, 0xCE])"
  using NewROMFromString_hex [OF _ hex_digits_of_test_rom] by simp

lemma crc8_test_rom: "crc8 [0x28, 0x25, 0xEA, 0x52, 0x05, 0x10, 0xF3] = 0xB4"
  by code_simp

theorem rom_crc_checked_on_read_only_witness:
  "b_Reset script_ops (script_line [0x28, 0x25, 0xEA, 0x52, 0x05, 0x10, 0xF3, 0xCE] [])
     = (None, reset_done_line [0x28, 0x25, 0xEA, 0x52, 0x05, 0x10, 0xF3, 0xCE])
   \<and> b_WriteByte script_ops 0x33 (reset_done_line [0x28, 0x25, 0xEA, 0x52, 0x05, 0x10, 0xF3, 0xCE])
     = (None, read_rom_line [0x28, 0x25, 0xEA, 0x52, 0x05, 0x10, 0xF3, 0xCE])
   \<and> reads_ok script_ops 8 (read_rom_line [0x28, 0x25, 0xEA, 0x52, 0x05, 0x10, 0xF3, 0xCE])
   \<and> fst (readROM script_ops (script_line [0x28, 0x25, 0xEA, 0x52, 0x05, 0x10, 0xF3, 0xCE] []))
     = Inl CrcError
   \<and> length ''2825EA520510F3CE'' = 16
   \<and> map hex_digit ''2825EA520510F3CE''
     = map Some [2, 8, 2, 5, 14, 10, 5, 2, 0, 5, 1, 0, 15, 3, 12, 14]
   \<and> NewROMFromString ''2825EA520510F3CE''
     = Inr (ROM [0x28, 0x25, 0xEA, 0x52, 0x05, 0x10, 0xF3, 0xCE])"
proof -
  let ?bytes = "[0x28, 0x25, 0xEA, 0x52, 0x05, 0x10, 0xF3, 0xCE] :: byte list"
  have h1: "b_Reset script_ops (script_line ?bytes []) = (None, reset_done_line ?bytes)"
    by (simp add: script_simps reset_done_line_def script_line_def)
  have h2: "b_WriteByte script_ops 0x33 (reset_done_line ?bytes) = (None, read_rom_line ?bytes)"
    by (simp add: script_simps reset_done_line_def read_rom_line_def script_line_def)
  have h3: "reads_ok script_ops 8 (read_rom_line ?bytes)"
    by (simp add: script_simps script_ReadByte_def read_rom_line_def script_line_def
          eval_nat_numeral)
  have rv: "read_values script_ops 8 (read_rom_line ?bytes) = ?bytes"
    by (simp add: script_simps script_ReadByte_def read_rom_line_def script_line_def
          eval_nat_numeral)
  have crc: "crc8 (take 7 ?bytes) \<noteq> ?bytes ! 7" by (simp add: crc8_test_rom)
  have h4: "length ''2825EA520510F3CE'' = 16" by simp
  note t = rom_crc_checked_on_read_only
    [of script_ops "script_line ?bytes []" "''2825EA520510F3CE''"]
  from t h1 h2 h3 rv crc
  have r: "fst (readROM script_ops (script_line ?bytes [])) = Inl CrcError" by simp
  from t h4 hex_digits_of_test_rom
  have "NewROMFromString ''2825EA520510F3CE''
      = Inr (ROM (hex_bytes [2, 8, 2, 5, 14, 10, 5, 2, 0, 5, 1, 0, 15, 3, 12, 14]))" by blast
  then have p: "NewROMFromString ''2825EA520510F3CE'' = Inr (ROM ?bytes)" by simp
  from h1 h2 h3 r h4 hex_digits_of_test_rom p show ?thesis by blast
qed

lemma search_unchecked:
  "map_option fst (searchROM sim_ops False
        (sim_line [(ROM [0x28, 0x25, 0xEA, 0x52, 0x05, 0x10, 0xF3, 0xCE], False)]))
     = Some (Inr [ROM [0x28, 0x25, 0xEA, 0x52, 0x05, 0x10, 0xF3, 0xCE]])"
  by code_simp

theorem rom_crc_counterexample:
  "NewROMFromString ''2825EA520510F3CE''
     = Inr (ROM [0x28, 0x25, 0xEA, 0x52, 0x05, 0x10, 0xF3, 0xCE])
   \<and> \<not> IsValid (ROM [0x28, 0x25, 0xEA, 0x52, 0x05, 0x10, 0xF3, 0xCE])
   \<and> crc8 [0x28, 0x25, 0xEA, 0x52, 0x05, 0x10, 0xF3] = 0xB4
   \<and> map_option fst (searchROM sim_ops False
        (sim_line [(ROM [0x28, 0x25, 0xEA, 0x52, 0x05, 0x10, 0xF3, 0xCE], False)]))
     = Some (Inr [ROM [0x28, 0x25, 0xEA, 0x52, 0x05, 0x10, 0xF3, 0xCE]])"
  using parse_test_rom crc8_test_rom search_unchecked by (simp add: IsValid_def)

end
